theory Spec2Isabelle
  imports Complex_Main
begin

section \<open>GSDMM: the MovieGroupProcess of gsdmm/mgp_array.py\<close>

text \<open>
  A shallow embedding of the class \<open>MovieGroupProcess\<close> of \<^verbatim>\<open>gsdmm/mgp_array.py\<close>.
  Python integers are \<open>int\<close>, floats are idealised as \<open>real\<close>, numpy arrays of integers
  are lists (\<open>int list\<close>, and a list of rows for the two-dimensional array), every
  exception is a value \<open>Inl e\<close> of a sum type.

  What the class takes from outside is a parameter of the model: numpy's \<open>log\<close> and
  \<open>exp\<close>, numpy's random \<open>multinomial\<close> together with the state of its generator, and
  the class \<open>Dictionary\<close> (constructor, \<open>doc2bow\<close>, \<open>len\<close>, \<open>save_as_text\<close>).
\<close>

subsection \<open>Errors\<close>

datatype error =
    TypeError | ValueError | IndexError | AttributeError
  | FileExistsError | FileNotFoundError

definition ebind :: "error + 'a \<Rightarrow> ('a \<Rightarrow> error + 'b) \<Rightarrow> error + 'b" where
  "ebind r f = (case r of Inl e \<Rightarrow> Inl e | Inr x \<Rightarrow> f x)"

subsection \<open>Data\<close>

text \<open>A document in bag-of-words form: pairs of a token id and its number of occurrences.\<close>

type_synonym doc = "(nat \<times> int) list"

text \<open>The part of the class \<open>Dictionary\<close> that the model uses.\<close>

record Dictionary =
  doc2bow :: "string list \<Rightarrow> doc"
  dict_len :: nat
  as_text :: string

text \<open>
  The attributes of a \<open>MovieGroupProcess\<close>. \<open>number_docs\<close> and \<open>vocab_size\<close> are \<open>None\<close>
  until \<open>fit\<close> sets them; the attribute \<open>dictionary\<close> does not exist before
  \<open>create_dictionary\<close>, which is \<open>None\<close> here.
\<close>

record MovieGroupProcess =
  K :: int
  alpha :: real
  beta :: real
  n_iters :: int
  number_docs :: "int option"
  vocab_size :: "int option"
  cluster_doc_count :: "int list"
  cluster_word_count :: "int list"
  cluster_word_distribution :: "int list list"
  dictionary :: "Dictionary option"

text \<open>
  The environment: \<open>np.log\<close>, \<open>np.exp\<close>, \<open>np.random.multinomial(1, p)\<close> (which reads
  and advances a generator state of type \<open>'r\<close>) and the constructor \<open>Dictionary(docs_toks)\<close>.
\<close>

record 'r env =
  np_log :: "real \<Rightarrow> real"
  np_exp :: "real \<Rightarrow> real"
  multinomial :: "'r \<Rightarrow> real list \<Rightarrow> nat list \<times> 'r"
  new_Dictionary :: "string list list \<Rightarrow> Dictionary"

subsection \<open>Construction\<close>

text \<open>
  \<open>__init__\<close> stores its four arguments and allocates the counters: \<open>range(K)\<close> is empty
  for \<open>K \<le> 0\<close>. The K empty dicts of \<open>cluster_word_distribution\<close> are K empty rows.
  There is no \<open>raise\<close> in \<open>__init__\<close>.
\<close>

definition init :: "int \<Rightarrow> real \<Rightarrow> real \<Rightarrow> int \<Rightarrow> error + MovieGroupProcess" where
  "init k a b n = Inr \<lparr>K = k, alpha = a, beta = b, n_iters = n,
     number_docs = None, vocab_size = None,
     cluster_doc_count = replicate (nat k) 0,
     cluster_word_count = replicate (nat k) 0,
     cluster_word_distribution = replicate (nat k) [],
     dictionary = None\<rparr>"

subsection \<open>Scoring\<close>

text \<open>\<open>idx, cnt = zip(*doc)\<close>: unpacking the empty \<open>zip()\<close> into two names raises ValueError.\<close>

definition zip_star :: "doc \<Rightarrow> error + nat list \<times> int list" where
  "zip_star doc = (if doc = [] then Inl ValueError else Inr (map fst doc, map snd doc))"

text \<open>\<open>n_z_w[:, idx]\<close>: the columns \<open>idx\<close> of every row; an index past the row raises.\<close>

definition take_columns :: "int list list \<Rightarrow> nat list \<Rightarrow> error + int list list" where
  "take_columns rows idx =
     (if \<forall>row \<in> set rows. \<forall>i \<in> set idx. i < length row
      then Inr (map (\<lambda>row. map (\<lambda>i. row ! i) idx) rows)
      else Inl IndexError)"

text \<open>
  An arithmetic operator of numpy on two one-dimensional arrays: elementwise on equal
  lengths, an array of length one is broadcast, any other pair of lengths raises.
\<close>

definition np_broadcast ::
  "(real \<Rightarrow> real \<Rightarrow> real) \<Rightarrow> real list \<Rightarrow> real list \<Rightarrow> error + real list" where
  "np_broadcast f xs ys =
     (if length xs = length ys then Inr (map2 f xs ys)
      else if length xs = 1 then Inr (map (f (hd xs)) ys)
      else if length ys = 1 then Inr (map (\<lambda>x. f x (hd ys)) xs)
      else Inl ValueError)"

text \<open>\<open>lN2 = np.log(n_z_w[:, idx] + beta).sum(axis=1)\<close>\<close>

definition score_lN2 :: "'r env \<Rightarrow> MovieGroupProcess \<Rightarrow> nat list \<Rightarrow> error + real list" where
  "score_lN2 env m idx =
     ebind (take_columns (cluster_word_distribution m) idx) (\<lambda>cols.
       Inr (map (\<lambda>row. sum_list (map (\<lambda>c. np_log env (of_int c + beta m)) row)) cols))"

text \<open>
  \<open>lD2 = np.log(n_z.reshape(-1, 1) + V * beta + np.array(range(1, doc_size + 1)) - 1).sum(axis=1)\<close>
\<close>

definition score_lD2 :: "'r env \<Rightarrow> MovieGroupProcess \<Rightarrow> nat \<Rightarrow> error + real list" where
  "score_lD2 env m doc_size =
     (case vocab_size m of
        None \<Rightarrow> Inl TypeError
      | Some V \<Rightarrow>
          Inr (map (\<lambda>n. sum_list (map (\<lambda>j. np_log env (of_int n + of_int V * beta m + of_nat j - 1))
                                      [1 ..< doc_size + 1]))
                   (cluster_word_count m)))"

text \<open>The body of \<open>score\<close> up to \<open>p = np.exp(lN1 - lD1 + lN2 - lD2)\<close>.\<close>

definition score_unnormalized :: "'r env \<Rightarrow> MovieGroupProcess \<Rightarrow> doc \<Rightarrow> error + real list" where
  "score_unnormalized env m doc =
     (case number_docs m of
        None \<Rightarrow> Inl TypeError
      | Some D \<Rightarrow>
          let lD1 = np_log env (of_int D - 1 + of_int (K m) * alpha m);
              doc_size = length doc
          in ebind (zip_star doc) (\<lambda>(idx, cnt).
               let lN1 = map (\<lambda>c. np_log env (of_int c + alpha m)) (cluster_doc_count m)
               in ebind (score_lN2 env m idx) (\<lambda>lN2.
                  ebind (score_lD2 env m doc_size) (\<lambda>lD2.
                  ebind (np_broadcast (+) (map (\<lambda>x. x - lD1) lN1) lN2) (\<lambda>s.
                  ebind (np_broadcast (-) s lD2) (\<lambda>t.
                  Inr (map (np_exp env) t)))))))"

text \<open>
  The end of \<open>score\<close>:
  \<^verbatim>\<open>pnorm = sum(p); pnorm = pnorm if pnorm > 0 else 1; return [pp / pnorm for pp in p]\<close>
\<close>

definition normalize :: "real list \<Rightarrow> real list" where
  "normalize p =
     (let pnorm = sum_list p;
          pnorm = (if pnorm > 0 then pnorm else 1)
      in map (\<lambda>pp. pp / pnorm) p)"

definition score :: "'r env \<Rightarrow> MovieGroupProcess \<Rightarrow> doc \<Rightarrow> error + real list" where
  "score env m doc = ebind (score_unnormalized env m doc) (\<lambda>p. Inr (normalize p))"

subsection \<open>Inference\<close>

text \<open>
  \<open>np.argmax\<close> scans the array and keeps the first index of the largest value; on an empty
  array it raises ValueError. Python's \<open>max\<close> keeps an item until a strictly larger one
  comes, and raises ValueError on an empty list.
\<close>

fun argmax_loop :: "real list \<Rightarrow> nat \<Rightarrow> nat \<Rightarrow> real \<Rightarrow> nat" where
  "argmax_loop [] i best v = best"
| "argmax_loop (y # ys) i best v =
     (if v < y then argmax_loop ys (Suc i) i y else argmax_loop ys (Suc i) best v)"

definition np_argmax :: "real list \<Rightarrow> error + nat" where
  "np_argmax p = (case p of [] \<Rightarrow> Inl ValueError | x # xs \<Rightarrow> Inr (argmax_loop xs 1 0 x))"

definition py_max :: "real list \<Rightarrow> error + real" where
  "py_max p =
     (case p of [] \<Rightarrow> Inl ValueError
      | x # xs \<Rightarrow> Inr (fold (\<lambda>item max_item. if max_item < item then item else max_item) xs x))"

text \<open>
  \<open>choose_best_label\<close> returns its pair and the object as it leaves it: neither it nor
  \<open>score\<close> assigns to an attribute.
\<close>

definition choose_best_label ::
  "'r env \<Rightarrow> MovieGroupProcess \<Rightarrow> string list \<Rightarrow> error + (nat \<times> real) \<times> MovieGroupProcess" where
  "choose_best_label env m doc =
     (case dictionary m of
        None \<Rightarrow> Inl AttributeError
      | Some d \<Rightarrow>
          let doc_corpus = doc2bow d doc
          in ebind (score env m doc_corpus) (\<lambda>p.
             ebind (np_argmax p) (\<lambda>label.
             ebind (py_max p) (\<lambda>best.
             Inr ((label, best), m)))))"

subsection \<open>Sampling\<close>

text \<open>
  \<open>_sample(p)\<close> is
  \<^verbatim>\<open>[i for i, entry in enumerate(np.random.multinomial(1, p)) if entry != 0][0]\<close>:
  the first index with a nonzero entry, IndexError when there is none.
\<close>

definition sample :: "'r env \<Rightarrow> 'r \<Rightarrow> real list \<Rightarrow> error + nat \<times> 'r" where
  "sample env r p =
     (case multinomial env r p of (v, r') \<Rightarrow>
        (case filter (\<lambda>i. v ! i \<noteq> 0) [0 ..< length v] of
           [] \<Rightarrow> Inl IndexError
         | i # _ \<Rightarrow> Inr (i, r')))"

subsection \<open>Updates of the statistics\<close>

text \<open>\<open>a[z] += v\<close> and \<open>a[z] -= v\<close> on a one-dimensional array (\<open>f\<close> is \<open>+\<close> or \<open>-\<close>).\<close>

definition array_inplace ::
  "(int \<Rightarrow> int \<Rightarrow> int) \<Rightarrow> int list \<Rightarrow> nat \<Rightarrow> int \<Rightarrow> error + int list" where
  "array_inplace f a z v = (if z < length a then Inr (a[z := f (a ! z) v]) else Inl IndexError)"

text \<open>
  \<open>row[idx] += cnt\<close> with a sequence of indices: numpy reads \<open>row[idx]\<close>, combines it with
  \<open>cnt\<close>, and writes the results back index by index (for a repeated index the last
  write stays).
\<close>

definition row_inplace ::
  "(int \<Rightarrow> int \<Rightarrow> int) \<Rightarrow> int list \<Rightarrow> nat list \<Rightarrow> int list \<Rightarrow> error + int list" where
  "row_inplace f row idx cnt =
     (if \<forall>i \<in> set idx. i < length row
      then Inr (fold (\<lambda>(i, v) r. r[i := v]) (zip idx (map2 f (map (\<lambda>i. row ! i) idx) cnt)) row)
      else Inl IndexError)"

text \<open>\<open>n_z_w[z, idx] += cnt\<close> and \<open>n_z_w[z, idx] -= cnt\<close>.\<close>

definition matrix_inplace ::
  "(int \<Rightarrow> int \<Rightarrow> int) \<Rightarrow> int list list \<Rightarrow> nat \<Rightarrow> nat list \<Rightarrow> int list
     \<Rightarrow> error + int list list" where
  "matrix_inplace f a z idx cnt =
     (if z < length a
      then ebind (row_inplace f (a ! z) idx cnt) (\<lambda>row. Inr (a[z := row]))
      else Inl IndexError)"

text \<open>\<open>np.zeros((K, V), dtype=int)\<close>: a negative dimension raises ValueError.\<close>

definition np_zeros :: "int \<Rightarrow> int \<Rightarrow> error + int list list" where
  "np_zeros k v =
     (if k < 0 \<or> v < 0 then Inl ValueError else Inr (replicate (nat k) (replicate (nat v) 0)))"

subsection \<open>Fitting\<close>

text \<open>What the class prints.\<close>

datatype printed =
    Stage nat nat nat  \<comment> \<open>\<open>In stage _iter: transferred total_transfers clusters with
                           cluster_count_new clusters populated\<close>\<close>
  | Converged          \<comment> \<open>\<open>Converged.  Breaking out.\<close>\<close>
  | FolderExists string  \<comment> \<open>\<open>Folder folder_path already exists, not overwriting it. Exiting!\<close>\<close>

text \<open>A \<open>for\<close> loop over a list whose body may raise.\<close>

fun for_each :: "('a \<Rightarrow> 's \<Rightarrow> error + 's) \<Rightarrow> 'a list \<Rightarrow> 's \<Rightarrow> error + 's" where
  "for_each body [] s = Inr s"
| "for_each body (x # xs) s =
     (case body x s of Inl e \<Rightarrow> Inl e | Inr s' \<Rightarrow> for_each body xs s')"

text \<open>
  \<open>create_dictionary\<close> builds the dictionary, the corpus and the vocabulary size. The
  corpus, which only \<open>fit\<close> reads, is returned with the object.
\<close>

definition create_dictionary ::
  "'r env \<Rightarrow> MovieGroupProcess \<Rightarrow> string list list \<Rightarrow> MovieGroupProcess \<times> doc list" where
  "create_dictionary env m docs_toks =
     (let d = new_Dictionary env docs_toks;
          corpus = map (doc2bow d) docs_toks
      in (m\<lparr>dictionary := Some d, vocab_size := Some (int (dict_len d))\<rparr>, corpus))"

text \<open>
  The body of the initialisation loop of \<open>fit\<close>. The names \<open>m_z\<close>, \<open>n_z\<close>, \<open>n_z_w\<close> of the
  source are aliases of the three arrays of the object, so every update is an update of
  the object. The list \<open>d_z\<close>, allocated with \<open>None\<close> and filled at index \<open>i\<close> in corpus
  order, is built here in that order.
\<close>

definition init_doc ::
  "'r env \<Rightarrow> doc \<Rightarrow> MovieGroupProcess \<times> nat list \<times> 'r
     \<Rightarrow> error + MovieGroupProcess \<times> nat list \<times> 'r" where
  "init_doc env doc s =
     (case s of (m, d_z, r) \<Rightarrow>
        ebind (sample env r (replicate (nat (K m)) (1 / of_int (K m)))) (\<lambda>(z, r').
        ebind (array_inplace (+) (cluster_doc_count m) z 1) (\<lambda>m_z.
        ebind (array_inplace (+) (cluster_word_count m) z (int (length doc))) (\<lambda>n_z.
        ebind (zip_star doc) (\<lambda>(idx, cnt).
        ebind (matrix_inplace (+) (cluster_word_distribution m) z idx cnt) (\<lambda>n_z_w.
        Inr (m\<lparr>cluster_doc_count := m_z, cluster_word_count := n_z,
                cluster_word_distribution := n_z_w\<rparr>,
             d_z @ [z], r')))))))"

text \<open>The body of the inner loop of \<open>fit\<close>, for document \<open>i\<close> of the corpus.\<close>

definition move_doc ::
  "'r env \<Rightarrow> nat \<times> doc \<Rightarrow> MovieGroupProcess \<times> nat list \<times> 'r \<times> nat
     \<Rightarrow> error + MovieGroupProcess \<times> nat list \<times> 'r \<times> nat" where
  "move_doc env idoc s =
     (case (idoc, s) of ((i, doc), (m, d_z, r, total_transfers)) \<Rightarrow>
        if length d_z \<le> i then Inl IndexError
        else
          let z_old = d_z ! i
          in ebind (array_inplace (-) (cluster_doc_count m) z_old 1) (\<lambda>m_z.
             ebind (array_inplace (-) (cluster_word_count m) z_old (int (length doc))) (\<lambda>n_z.
             ebind (zip_star doc) (\<lambda>(idx, cnt).
             ebind (matrix_inplace (-) (cluster_word_distribution m) z_old idx cnt) (\<lambda>n_z_w.
             let m1 = m\<lparr>cluster_doc_count := m_z, cluster_word_count := n_z,
                         cluster_word_distribution := n_z_w\<rparr>
             in ebind (score env m1 doc) (\<lambda>p.
                ebind (sample env r p) (\<lambda>(z_new, r').
                let total_transfers =
                      (if z_new \<noteq> z_old then total_transfers + 1 else total_transfers);
                    d_z = d_z[i := z_new]
                in ebind (array_inplace (+) m_z z_new 1) (\<lambda>m_z.
                   ebind (array_inplace (+) n_z z_new (int (length doc))) (\<lambda>n_z.
                   ebind (matrix_inplace (+) n_z_w z_new idx cnt) (\<lambda>n_z_w.
                   Inr (m1\<lparr>cluster_doc_count := m_z, cluster_word_count := n_z,
                            cluster_word_distribution := n_z_w\<rparr>,
                        d_z, r', total_transfers)))))))))))"

text \<open>\<open>sum([1 for v in m_z if v > 0])\<close>\<close>

definition populated :: "int list \<Rightarrow> nat" where
  "populated m_z = length (filter (\<lambda>v. v > 0) m_z)"

text \<open>
  The outer loop of \<open>fit\<close> over \<open>range(n_iters)\<close>; the state carries \<open>cluster_count\<close> and
  what has been printed so far.
\<close>

fun fit_iters ::
  "'r env \<Rightarrow> doc list \<Rightarrow> nat list \<Rightarrow> MovieGroupProcess \<times> nat list \<times> 'r \<times> int \<times> printed list
     \<Rightarrow> error + MovieGroupProcess \<times> nat list \<times> 'r \<times> int \<times> printed list" where
  "fit_iters env corpus [] s = Inr s"
| "fit_iters env corpus (iter # iters) (m, d_z, r, cluster_count, out) =
     (case for_each (move_doc env) (enumerate 0 corpus) (m, d_z, r, 0) of
        Inl e \<Rightarrow> Inl e
      | Inr (m', d_z', r', total_transfers) \<Rightarrow>
          let cluster_count_new = populated (cluster_doc_count m');
              out' = out @ [Stage iter total_transfers cluster_count_new]
          in if total_transfers = 0 \<and> int cluster_count_new = cluster_count \<and> iter > 25
             then Inr (m', d_z', r', cluster_count, out' @ [Converged])
             else fit_iters env corpus iters (m', d_z', r', int cluster_count_new, out'))"

text \<open>
  \<open>fit\<close> returns \<open>d_z\<close>; the model returns with it the object, what was printed and the
  state of the random generator.
\<close>

definition fit ::
  "'r env \<Rightarrow> MovieGroupProcess \<Rightarrow> string list list \<Rightarrow> 'r
     \<Rightarrow> error + nat list \<times> MovieGroupProcess \<times> printed list \<times> 'r" where
  "fit env m docs r =
     (case create_dictionary env m docs of (m1, corpus) \<Rightarrow>
        let D = int (length corpus);
            m2 = m1\<lparr>number_docs := Some D\<rparr>
        in case vocab_size m2 of
             None \<Rightarrow> Inl TypeError
           | Some V \<Rightarrow>
               ebind (np_zeros (K m2) V) (\<lambda>zeros.
               let m3 = m2\<lparr>cluster_word_distribution := zeros\<rparr>;
                   cluster_count = K m2
               in ebind (for_each (init_doc env) corpus (m3, [], r)) (\<lambda>(m4, d_z, r1).
                  ebind (fit_iters env corpus [0 ..< nat (n_iters m2)]
                           (m4, d_z, r1, cluster_count, []))
                    (\<lambda>(m5, d_z, r2, cluster_count, out).
                  Inr (d_z, m5, out, r2)))))"

subsection \<open>Persistence\<close>

text \<open>
  The file system and the console. \<open>os.mkdir\<close> raises FileExistsError when its path
  exists, as a directory or as a file; the other failures of the operating system are
  not modelled.
\<close>

datatype saved =
  SavedInt int | SavedReal real | SavedArray "int list" | SavedMatrix "int list list"

datatype content = Npy "saved list" | Text string

record world =
  dirs :: "string set"
  files :: "string \<Rightarrow> content option"
  stdout :: "printed list"

definition os_path_isdir :: "world \<Rightarrow> string \<Rightarrow> bool" where
  "os_path_isdir w p = (p \<in> dirs w)"

definition path_exists :: "world \<Rightarrow> string \<Rightarrow> bool" where
  "path_exists w p = (p \<in> dirs w \<or> files w p \<noteq> None)"

definition os_mkdir :: "world \<Rightarrow> string \<Rightarrow> error + world" where
  "os_mkdir w p =
     (if path_exists w p then Inl FileExistsError else Inr (w\<lparr>dirs := insert p (dirs w)\<rparr>))"

definition Path :: "string \<Rightarrow> string \<Rightarrow> string" where
  "Path folder name = folder @ ''/'' @ name"

text \<open>
  \<open>save\<close> returns the exception it raises, if any, and the world as it leaves it. After
  the message of the first \<open>if\<close> there is no \<open>return\<close>: \<open>os.mkdir\<close> is called in any case.
\<close>

definition save :: "MovieGroupProcess \<Rightarrow> string \<Rightarrow> world \<Rightarrow> error option \<times> world" where
  "save m folder_path w =
     (let w1 = (if os_path_isdir w folder_path
                then w\<lparr>stdout := stdout w @ [FolderExists folder_path]\<rparr> else w)
      in case os_mkdir w1 folder_path of
           Inl e \<Rightarrow> (Some e, w1)
         | Inr w2 \<Rightarrow>
             let w3 = w2\<lparr>files := fun_upd (files w2) (Path folder_path ''gsdmm.npy'')
                         (Some (Npy [SavedInt (K m), SavedReal (alpha m), SavedReal (beta m),
                              SavedArray (cluster_doc_count m),
                              SavedArray (cluster_word_count m),
                              SavedMatrix (cluster_word_distribution m)]))\<rparr>
             in case dictionary m of
                  None \<Rightarrow> (Some AttributeError, w3)
                | Some d \<Rightarrow>
                    (None, w3\<lparr>files := fun_upd (files w3) (Path folder_path ''dictionary.npy'')
                                 (Some (Text (as_text d)))\<rparr>))"

subsection \<open>Properties of a run\<close>


text \<open>
  What \<open>fit\<close> prints when its passes, the first of index \<open>a\<close>, have the results \<open>ps\<close>
  (transfers and populated clusters of each pass) and \<open>conv\<close> tells whether it broke out
  of the loop.
\<close>

definition log_of :: "nat \<Rightarrow> (nat \<times> nat) list \<Rightarrow> bool \<Rightarrow> printed list" where
  "log_of a ps conv =
     map (\<lambda>(j, t, c). Stage j t c) (enumerate a ps) @ (if conv then [Converged] else [])"

text \<open>
  The test \<^verbatim>\<open>total_transfers == 0 and cluster_count_new == cluster_count and _iter > 25\<close>
  at pass \<open>j\<close> of \<open>ps\<close>, where the first pass has index \<open>a\<close> and starts with
  \<open>cluster_count = cc\<close>.
\<close>

definition stops_at :: "int \<Rightarrow> nat \<Rightarrow> (nat \<times> nat) list \<Rightarrow> nat \<Rightarrow> bool" where
  "stops_at cc a ps j \<longleftrightarrow>
     fst (ps ! j) = 0
     \<and> int (snd (ps ! j)) = (if j = 0 then cc else int (snd (ps ! (j - 1))))
     \<and> 25 < a + j"

subsection \<open>Concrete inputs\<close>

text \<open>
  Modelled from the spec: the class \<open>Dictionary\<close> of \<^verbatim>\<open>gsdmm/dictionary.py\<close>, which is
  not among the sources. The spec's vocabulary builder gives every distinct token an
  id, reports the number of ids, and turns a token sequence into the pairs (id, count)
  of its known tokens, in the order of the ids; unknown tokens are dropped.
\<close>

definition toy_doc2bow :: "string list \<Rightarrow> string list \<Rightarrow> doc" where
  "toy_doc2bow vocab toks =
     map (\<lambda>i. (i, int (count_list toks (vocab ! i))))
         (filter (\<lambda>i. vocab ! i \<in> set toks) [0 ..< length vocab])"

definition toy_Dictionary :: "string list list \<Rightarrow> Dictionary" where
  "toy_Dictionary docs_toks =
     (let vocab = remdups (concat docs_toks)
      in \<lparr>doc2bow = toy_doc2bow vocab, dict_len = length vocab, as_text = concat vocab\<rparr>)"

text \<open>A random source that always draws the first category.\<close>

definition first_category :: "unit \<Rightarrow> real list \<Rightarrow> nat list \<times> unit" where
  "first_category r p = (case p of [] \<Rightarrow> [] | _ # ps \<Rightarrow> 1 # map (\<lambda>_. 0) ps, r)"

text \<open>A random source that always draws the last category.\<close>

definition last_category :: "unit \<Rightarrow> real list \<Rightarrow> nat list \<times> unit" where
  "last_category r p = (case rev p of [] \<Rightarrow> [] | _ # ps \<Rightarrow> map (\<lambda>_. 0) ps @ [1], r)"

text \<open>Exact logarithm and exponential.\<close>

definition ideal_env :: "unit env" where
  "ideal_env = \<lparr>np_log = ln, np_exp = exp, multinomial = first_category,
                 new_Dictionary = toy_Dictionary\<rparr>"

text \<open>An exponential that is 0 below -746, as \<open>np.exp\<close> is on 64-bit floats.\<close>

definition underflow_env :: "unit env" where
  "underflow_env = \<lparr>np_log = ln, np_exp = (\<lambda>x. if x < - 746 then 0 else exp x),
                     multinomial = first_category, new_Dictionary = toy_Dictionary\<rparr>"

definition tiny :: real where
  "tiny = 1 / 10 ^ 300"

text \<open>
  Two clusters with one document each (\<open>c c\<close> and \<open>d d\<close>) while a third document \<open>a b\<close>
  is taken out of its cluster; \<open>b\<close> is the value of beta.
\<close>

definition two_clusters :: "real \<Rightarrow> MovieGroupProcess" where
  "two_clusters b =
     \<lparr>K = 2, alpha = 1 / 10, beta = b, n_iters = 30, number_docs = Some 3, vocab_size = Some 4,
      cluster_doc_count = [1, 1], cluster_word_count = [2, 2],
      cluster_word_distribution = [[0, 0, 2, 0], [0, 0, 0, 2]],
      dictionary = Some (toy_Dictionary [[''a'', ''b''], [''c'', ''c''], [''d'', ''d'']])\<rparr>"

text \<open>A file system in which the directory \<open>out\<close> exists.\<close>

definition world_with_out :: world where
  "world_with_out = \<lparr>dirs = {''out''}, files = (\<lambda>_. None), stdout = []\<rparr>"

text \<open>An exponential that underflows, with a random source that draws the last category.\<close>

definition underflow_last_env :: "unit env" where
  "underflow_last_env = underflow_env\<lparr>multinomial := last_category\<rparr>"

text \<open>
  The state of \<open>two_clusters\<close> before the document \<open>a b\<close> is taken out of cluster 0: the
  three documents \<open>a b\<close>, \<open>c c\<close>, \<open>d d\<close> have the labels 0, 0, 1.
\<close>

definition three_documents :: "real \<Rightarrow> MovieGroupProcess" where
  "three_documents b =
     (two_clusters b)\<lparr>cluster_doc_count := [2, 1], cluster_word_count := [4, 2],
                       cluster_word_distribution := [[1, 1, 2, 0], [0, 0, 0, 2]]\<rparr>"

text \<open>
  What \<open>MovieGroupProcess(K=1, alpha=0.1, beta=0.1, n_iters=n)\<close> constructs, and an object
  with one cluster that has been fitted to \<open>docs\<close> and holds the given statistics.
\<close>

definition unfitted :: "int \<Rightarrow> MovieGroupProcess" where
  "unfitted n =
     \<lparr>K = 1, alpha = 1 / 10, beta = 1 / 10, n_iters = n, number_docs = None, vocab_size = None,
      cluster_doc_count = [0], cluster_word_count = [0], cluster_word_distribution = [[]],
      dictionary = None\<rparr>"

definition fitted ::
  "string list list \<Rightarrow> int list \<Rightarrow> int list \<Rightarrow> int list list \<Rightarrow> int \<Rightarrow> MovieGroupProcess" where
  "fitted docs m_z n_z n_z_w n =
     \<lparr>K = 1, alpha = 1 / 10, beta = 1 / 10, n_iters = n,
      number_docs = Some (int (length docs)),
      vocab_size = Some (int (dict_len (toy_Dictionary docs))),
      cluster_doc_count = m_z, cluster_word_count = n_z, cluster_word_distribution = n_z_w,
      dictionary = Some (toy_Dictionary docs)\<rparr>"

section \<open>Verification\<close>

subsection \<open>Construction and scoring\<close>

lemma ebind_Inr [simp]: "ebind (Inr x) f = f x"
  by (simp add: ebind_def)

lemma ebind_Inl [simp]: "ebind (Inl e) f = Inl e"
  by (simp add: ebind_def)

lemma ebind_eq_Inr: "ebind r f = Inr y \<longleftrightarrow> (\<exists>x. r = Inr x \<and> f x = Inr y)"
  by (cases r) simp_all

text \<open>
  Claim C7, as amended. \<open>__init__\<close> validates nothing: for every K, alpha, beta and
  n_iters, also with \<open>K < 1\<close>, \<open>alpha \<le> 0\<close>, \<open>beta \<le> 0\<close> or \<open>n_iters < 1\<close>, construction
  succeeds, stores the four values as they are, and allocates \<open>max K 0\<close> zero counters.
\<close>

theorem init_never_validates:
  "\<exists>m. init k a b n = Inr m \<and> K m = k \<and> alpha m = a \<and> beta m = b \<and> n_iters m = n
       \<and> cluster_doc_count m = replicate (nat k) 0
       \<and> cluster_word_count m = replicate (nat k) 0
       \<and> length (cluster_word_distribution m) = nat k"
  by (simp add: init_def)

text \<open>
  Claim C7 as stated fails: with \<open>K = 0\<close>, \<open>alpha = -1\<close>, \<open>beta = 0\<close> and \<open>n_iters = 0\<close>
  construction returns an object, not an error.
\<close>

theorem init_accepts_invalid_configuration:
  "init 0 (- 1) 0 0 =
     Inr \<lparr>K = 0, alpha = - 1, beta = 0, n_iters = 0, number_docs = None, vocab_size = None,
          cluster_doc_count = [], cluster_word_count = [], cluster_word_distribution = [],
          dictionary = None\<rparr>"
  by (simp add: init_def)

lemma sum_list_divide: "sum_list (map (\<lambda>x. x / c) xs) = sum_list xs / (c::real)"
  by (induction xs) (simp_all add: add_divide_distrib)

lemma normalize_sum: "0 < sum_list p \<Longrightarrow> sum_list (normalize p) = 1"
  by (simp add: normalize_def Let_def sum_list_divide)

lemma length_normalize [simp]: "length (normalize p) = length p"
  by (simp add: normalize_def Let_def)

lemma length_np_broadcast:
  "np_broadcast f xs ys = Inr zs \<Longrightarrow> length xs = n \<Longrightarrow> length ys = n \<Longrightarrow> length zs = n"
  by (auto simp: np_broadcast_def split: if_splits)

lemma length_score_lN2:
  "score_lN2 env m idx = Inr l \<Longrightarrow> length l = length (cluster_word_distribution m)"
  by (auto simp: score_lN2_def take_columns_def split: if_splits)

lemma length_score_lD2:
  "score_lD2 env m n = Inr l \<Longrightarrow> length l = length (cluster_word_count m)"
  by (auto simp: score_lD2_def split: option.splits)

lemma length_score_unnormalized:
  assumes "score_unnormalized env m doc = Inr p"
    and "length (cluster_doc_count m) = n"
    and "length (cluster_word_count m) = n"
    and "length (cluster_word_distribution m) = n"
  shows "length p = n"
proof -
  from assms(1) obtain D idx lN2 lD2 s t where
    "score_lN2 env m idx = Inr lN2"
    "score_lD2 env m (length doc) = Inr lD2"
    "np_broadcast (+) (map (\<lambda>x. x - np_log env (of_int D - 1 + of_int (K m) * alpha m))
        (map (\<lambda>c. np_log env (of_int c + alpha m)) (cluster_doc_count m))) lN2 = Inr s"
    "np_broadcast (-) s lD2 = Inr t" "p = map (np_exp env) t"
    by (auto simp: score_unnormalized_def Let_def ebind_eq_Inr split: option.splits)
  then show ?thesis
    using assms(2-4) length_score_lN2 length_score_lD2 length_np_broadcast
    by (metis length_map)
qed

text \<open>
  Claim C4. Whenever the unnormalised scores of a document have a strictly positive
  total, \<open>score\<close> returns a vector that sums to 1 (in exact arithmetic); it has as many
  entries as the unnormalised vector, which is K when the three arrays have K rows.
\<close>

theorem score_sums_to_one:
  assumes "score_unnormalized env m doc = Inr p" and "0 < sum_list p"
  shows "\<exists>q. score env m doc = Inr q \<and> sum_list q = 1 \<and> length q = length p
           \<and> (length (cluster_doc_count m) = nat (K m)
              \<and> length (cluster_word_count m) = nat (K m)
              \<and> length (cluster_word_distribution m) = nat (K m) \<longrightarrow> length q = nat (K m))"
  using assms length_score_unnormalized [OF assms(1)]
  by (auto simp: score_def normalize_sum)

text \<open>
  Claim C5, as amended. Whenever the unnormalised score vector sums to zero, \<open>score\<close>
  raises nothing: it divides by 1 and returns the unnormalised vector as it is. The
  pass of \<open>fit\<close> raises nothing either: when document \<open>i\<close> has been taken out of its
  cluster, the object \<open>m0\<close> becoming \<open>m\<close>, and the scores of the document on \<open>m\<close> are such
  a vector \<open>p\<close>, the body of the loop hands \<open>p\<close> to the random draw and goes on with the
  label that the draw returns.
\<close>

theorem score_degenerate_returns_unnormalized:
  assumes "score_unnormalized env m doc = Inr p" and "sum_list p = 0"
  shows "score env m doc = Inr p
     \<and> (\<forall>i d_z r t m0 idx cnt m_z n_z n_z_w.
          i < length d_z
          \<and> array_inplace (-) (cluster_doc_count m0) (d_z ! i) 1 = Inr m_z
          \<and> array_inplace (-) (cluster_word_count m0) (d_z ! i) (int (length doc)) = Inr n_z
          \<and> zip_star doc = Inr (idx, cnt)
          \<and> matrix_inplace (-) (cluster_word_distribution m0) (d_z ! i) idx cnt = Inr n_z_w
          \<and> m = m0\<lparr>cluster_doc_count := m_z, cluster_word_count := n_z,
                      cluster_word_distribution := n_z_w\<rparr>
          \<longrightarrow> move_doc env (i, doc) (m0, d_z, r, t) =
                ebind (sample env r p) (\<lambda>(z_new, r').
                ebind (array_inplace (+) m_z z_new 1) (\<lambda>m_z'.
                ebind (array_inplace (+) n_z z_new (int (length doc))) (\<lambda>n_z'.
                ebind (matrix_inplace (+) n_z_w z_new idx cnt) (\<lambda>n_z_w'.
                Inr (m\<lparr>cluster_doc_count := m_z', cluster_word_count := n_z',
                         cluster_word_distribution := n_z_w'\<rparr>,
                     d_z[i := z_new], r', if z_new \<noteq> d_z ! i then t + 1 else t))))))"
proof (intro conjI allI impI)
  show sc: "score env m doc = Inr p"
    using assms by (simp add: score_def normalize_def)
  fix i d_z r t m0 idx cnt m_z n_z n_z_w
  assume h: "i < length d_z
          \<and> array_inplace (-) (cluster_doc_count m0) (d_z ! i) 1 = Inr m_z
          \<and> array_inplace (-) (cluster_word_count m0) (d_z ! i) (int (length doc)) = Inr n_z
          \<and> zip_star doc = Inr (idx, cnt)
          \<and> matrix_inplace (-) (cluster_word_distribution m0) (d_z ! i) idx cnt = Inr n_z_w
          \<and> m = m0\<lparr>cluster_doc_count := m_z, cluster_word_count := n_z,
                      cluster_word_distribution := n_z_w\<rparr>"
  then have m: "m = m0\<lparr>cluster_doc_count := m_z, cluster_word_count := n_z,
                      cluster_word_distribution := n_z_w\<rparr>"
    by simp
  from h sc [unfolded m]
  show "move_doc env (i, doc) (m0, d_z, r, t) =
                ebind (sample env r p) (\<lambda>(z_new, r').
                ebind (array_inplace (+) m_z z_new 1) (\<lambda>m_z'.
                ebind (array_inplace (+) n_z z_new (int (length doc))) (\<lambda>n_z'.
                ebind (matrix_inplace (+) n_z_w z_new idx cnt) (\<lambda>n_z_w'.
                Inr (m\<lparr>cluster_doc_count := m_z', cluster_word_count := n_z',
                         cluster_word_distribution := n_z_w'\<rparr>,
                     d_z[i := z_new], r', if z_new \<noteq> d_z ! i then t + 1 else t)))))"
    unfolding m by (simp add: move_doc_def Let_def)
qed

subsection \<open>Scoring and labelling on concrete states\<close>

lemma exp_two_le: "exp (2::real) \<le> 9"
proof -
  have "exp (2::real) = exp 1 * exp 1" by (simp add: exp_add [symmetric])
  also have "\<dots> \<le> 3 * 3" by (intro mult_mono exp_le) simp_all
  finally show ?thesis by simp
qed

lemma ln_ten_ge: "2 \<le> ln (10::real)"
  using exp_two_le by (simp add: ln_ge_iff)

lemma tiny_pos: "0 < tiny"
  by (simp add: tiny_def)

lemma ln_tiny: "ln tiny \<le> - 600"
proof -
  have "ln tiny = ln 1 - ln ((10::real) ^ 300)"
    unfolding tiny_def by (rule ln_divide_pos) simp_all
  moreover have "ln ((10::real) ^ 300) = real 300 * ln 10"
    by (rule ln_realpow)
  ultimately have "ln tiny = - (300 * ln 10)"
    by (simp only: ln_one)
  then show ?thesis using ln_ten_ge by simp
qed

lemma underflow_exponent:
  assumes "0 < b" and "ln b \<le> - 600" and "0 \<le> c" and "0 \<le> d"
  shows "ln (11 / 10) - ln (22 / 10) + (ln b + ln b) - (ln (2 + c) + ln (3 + d)) < (- 746::real)"
proof -
  have "ln (11 / 10) \<le> ln (22 / 10 :: real)" by simp
  moreover have "0 \<le> ln (2 + c)" using assms(3) by simp
  moreover have "0 \<le> ln (3 + d)" using assms(4) by simp
  ultimately show ?thesis using assms(2) by linarith
qed

text \<open>
  Claim C1 fails on \<open>score\<close> of \<^verbatim>\<open>mgp_array.py\<close>: \<open>lN2\<close> is computed from the token ids
  alone. For the document \<open>[(2, 2)]\<close> (token 2, twice) it has one addend per cluster,
  \<open>log (n_z_w[z][2] + beta)\<close>, where the claim has twice that.
\<close>

theorem score_ignores_occurrence_count:
  "zip_star [(2, 2)] = Inr ([2], [2])
   \<and> score_lN2 ideal_env (two_clusters (1 / 10)) [2] = Inr [ln (21 / 10), ln (1 / 10)]
   \<and> [ln (21 / 10), ln (1 / 10)] \<noteq> [2 * ln (21 / 10), 2 * ln (1 / 10 :: real)]"
  by (simp add: zip_star_def score_lN2_def take_columns_def ideal_env_def two_clusters_def)

lemma two_clusters_underflow:
  "score_unnormalized underflow_env (two_clusters tiny) [(0, 1), (1, 1)] = Inr [0, 0]"
  using underflow_exponent [OF tiny_pos ln_tiny, of "4 * tiny" "4 * tiny"] tiny_pos
  by (simp add: score_unnormalized_def score_lN2_def score_lD2_def take_columns_def
      zip_star_def np_broadcast_def underflow_env_def two_clusters_def Let_def)

text \<open>
  Claim C5 as stated fails: with \<open>beta = 10\<^sup>-\<^sup>3\<^sup>0\<^sup>0\<close> the scores of a document of two
  tokens that no cluster holds underflow to 0 in both clusters, and \<open>score\<close> returns
  the all-zero vector, not an error.
\<close>

theorem score_degenerate_no_error:
  "score_unnormalized underflow_env (two_clusters tiny) [(0, 1), (1, 1)] = Inr [0, 0]
   \<and> score underflow_env (two_clusters tiny) [(0, 1), (1, 1)] = Inr [0, 0]"
  using two_clusters_underflow by (simp add: score_def normalize_def)

lemma two_clusters_underflow_last:
  "score_unnormalized underflow_last_env (two_clusters tiny) [(0, 1), (1, 1)] = Inr [0, 0]"
  using underflow_exponent [OF tiny_pos ln_tiny, of "4 * tiny" "4 * tiny"] tiny_pos
  by (simp add: score_unnormalized_def score_lN2_def score_lD2_def take_columns_def
      zip_star_def np_broadcast_def underflow_last_env_def underflow_env_def two_clusters_def
      Let_def)

theorem score_degenerate_returns_unnormalized_witness:
  "score underflow_last_env (two_clusters tiny) [(0, 1), (1, 1)] = Inr [0, 0]
   \<and> move_doc underflow_last_env (0, [(0, 1), (1, 1)]) (three_documents tiny, [0, 0, 1], (), 0)
       = Inr ((two_clusters tiny)\<lparr>cluster_doc_count := [1, 2], cluster_word_count := [2, 4],
                 cluster_word_distribution := [[0, 0, 2, 0], [1, 1, 0, 2]]\<rparr>,
              [1, 0, 1], (), 1)"
proof -
  have z: "sum_list [0, 0 :: real] = 0" by simp
  note w = score_degenerate_returns_unnormalized [OF two_clusters_underflow_last z]
  have pre: "0 < length [0, 0, 1 :: nat]
     \<and> array_inplace (-) (cluster_doc_count (three_documents tiny)) ([0, 0, 1] ! 0) 1 = Inr [1, 1]
     \<and> array_inplace (-) (cluster_word_count (three_documents tiny)) ([0, 0, 1] ! 0)
           (int (length [(0::nat, 1::int), (1, 1)])) = Inr [2, 2]
     \<and> zip_star [(0, 1), (1, 1)] = Inr ([0, 1], [1, 1])
     \<and> matrix_inplace (-) (cluster_word_distribution (three_documents tiny)) ([0, 0, 1] ! 0)
           [0, 1] [1, 1] = Inr [[0, 0, 2, 0], [0, 0, 0, 2]]
     \<and> two_clusters tiny = (three_documents tiny)\<lparr>cluster_doc_count := [1, 1],
           cluster_word_count := [2, 2],
           cluster_word_distribution := [[0, 0, 2, 0], [0, 0, 0, 2]]\<rparr>"
    by (simp add: three_documents_def two_clusters_def array_inplace_def zip_star_def
        matrix_inplace_def row_inplace_def)
  from w [THEN conjunct2, rule_format, OF pre, of "()" 0] w [THEN conjunct1]
  show ?thesis
    by (simp add: sample_def underflow_last_env_def underflow_env_def last_category_def
        array_inplace_def matrix_inplace_def row_inplace_def)
qed

theorem score_sums_to_one_witness:
  "\<exists>q. score ideal_env (two_clusters (1 / 10)) [(0, 1), (1, 1)] = Inr q
       \<and> sum_list q = 1 \<and> length q = 2"
proof -
  have "\<exists>p. score_unnormalized ideal_env (two_clusters (1 / 10)) [(0, 1), (1, 1)] = Inr p
            \<and> 0 < sum_list p \<and> length p = 2"
    by (simp add: score_unnormalized_def score_lN2_def score_lD2_def take_columns_def
      zip_star_def np_broadcast_def ideal_env_def two_clusters_def Let_def add_pos_pos)
  then obtain p where p: "score_unnormalized ideal_env (two_clusters (1 / 10)) [(0, 1), (1, 1)] = Inr p"
    "0 < sum_list p" "length p = 2" by blast
  from score_sums_to_one [OF p(1) p(2)] p(3) show ?thesis by auto
qed

lemma argmax_loop_scan:
  assumes "length pre = i" and "best < i" and "pre ! best = v"
    and "\<forall>j<i. pre ! j \<le> v" and "\<forall>j<best. pre ! j < v"
  shows "argmax_loop ys i best v < length (pre @ ys)
     \<and> (\<forall>j<length (pre @ ys). (pre @ ys) ! j \<le> (pre @ ys) ! argmax_loop ys i best v)
     \<and> (\<forall>j<argmax_loop ys i best v. (pre @ ys) ! j < (pre @ ys) ! argmax_loop ys i best v)
     \<and> fold (\<lambda>item max_item. if max_item < item then item else max_item) ys v
         = (pre @ ys) ! argmax_loop ys i best v"
  using assms
proof (induction ys arbitrary: pre i best v)
  case Nil
  then show ?case by simp
next
  case (Cons y ys)
  show ?case
  proof (cases "v < y")
    case True
    have "length (pre @ [y]) = Suc i" "i < Suc i" "(pre @ [y]) ! i = y"
      using Cons.prems by (auto simp: nth_append)
    moreover have "\<forall>j<Suc i. (pre @ [y]) ! j \<le> y"
      using Cons.prems True by (auto simp: nth_append less_Suc_eq intro: less_imp_le order.trans)
    moreover have "\<forall>j<i. (pre @ [y]) ! j < y"
      using Cons.prems True by (auto simp: nth_append intro: le_less_trans)
    ultimately show ?thesis
      using Cons.IH [of "pre @ [y]" "Suc i" i y] True by simp
  next
    case False
    have "length (pre @ [y]) = Suc i" "best < Suc i" "(pre @ [y]) ! best = v"
      using Cons.prems by (simp_all add: nth_append)
    moreover have "\<forall>j<Suc i. (pre @ [y]) ! j \<le> v"
      using Cons.prems False by (auto simp: nth_append less_Suc_eq)
    moreover have "\<forall>j<best. (pre @ [y]) ! j < v"
      using Cons.prems by (auto simp: nth_append)
    ultimately show ?thesis
      using Cons.IH [of "pre @ [y]" "Suc i" best v] False by simp
  qed
qed

text \<open>
  Labelling when scoring succeeds. When \<open>score\<close> returns a non-empty vector \<open>p\<close> for
  the document, \<open>choose_best_label\<close> returns a label of maximal probability with that
  probability, the label is the lowest index at which the maximum is taken, and the
  object is returned as it was.
\<close>

theorem choose_best_label_first_maximum:
  assumes "dictionary m = Some d" and "score env m (doc2bow d doc) = Inr p" and "p \<noteq> []"
  shows "\<exists>label. choose_best_label env m doc = Inr ((label, p ! label), m)
           \<and> label < length p
           \<and> (\<forall>j<length p. p ! j \<le> p ! label)
           \<and> (\<forall>j<label. p ! j < p ! label)"
proof -
  from assms(3) obtain x xs where p: "p = x # xs" by (cases p) auto
  have "length [x] = 1" "(0::nat) < 1" "[x] ! 0 = x" "\<forall>j<1. [x] ! j \<le> x" "\<forall>j<0. [x] ! j < x"
    by simp_all
  from argmax_loop_scan [OF this, of xs] show ?thesis
    using assms(1,2) by (simp add: choose_best_label_def np_argmax_def py_max_def p)
qed

lemma two_clusters_tie:
  "score ideal_env (two_clusters (1 / 10)) [(0, 1)] = Inr [1 / 2, 1 / 2]"
  by (simp add: score_def normalize_def score_unnormalized_def score_lN2_def score_lD2_def
      take_columns_def zip_star_def np_broadcast_def ideal_env_def two_clusters_def Let_def)

theorem choose_best_label_first_maximum_witness:
  "choose_best_label ideal_env (two_clusters (1 / 10)) [''a'']
     = Inr ((0, 1 / 2), two_clusters (1 / 10))"
proof -
  let ?d = "toy_Dictionary [[''a'', ''b''], [''c'', ''c''], [''d'', ''d'']]"
  have d: "dictionary (two_clusters (1 / 10)) = Some ?d"
    by (simp add: two_clusters_def)
  have bow: "doc2bow ?d [''a''] = [(0, 1)]"
    by (simp add: toy_Dictionary_def toy_doc2bow_def)
  have sc: "score ideal_env (two_clusters (1 / 10)) (doc2bow ?d [''a'']) = Inr [1 / 2, 1 / 2]"
    by (simp only: bow two_clusters_tie)
  have ne: "[1 / 2, 1 / 2] \<noteq> ([]::real list)" by simp
  from choose_best_label_first_maximum [OF d sc ne]
  obtain label where l: "choose_best_label ideal_env (two_clusters (1 / 10)) [''a'']
        = Inr ((label, [1 / 2, 1 / 2] ! label), two_clusters (1 / 10))"
      "label < 2" "\<forall>j<label. [1 / 2, 1 / 2 :: real] ! j < [1 / 2, 1 / 2] ! label"
    by auto
  have "label = 0"
  proof (rule ccontr)
    assume "label \<noteq> 0"
    with l(2) have "label = 1" by simp
    with l(3) [rule_format, of 0] show False by simp
  qed
  with l(1) show ?thesis by simp
qed

subsection \<open>Saving\<close>

text \<open>
  Claim C6. When the target of \<open>save\<close> exists, as a directory or as a file, \<open>save\<close>
  fails with the FileExistsError of \<open>os.mkdir\<close> (Python's error for a path that
  already exists) and leaves the files and directories as they were.
\<close>

theorem save_existing_path_fails:
  assumes "path_exists w folder_path"
  shows "fst (save m folder_path w) = Some FileExistsError
     \<and> files (snd (save m folder_path w)) = files w
     \<and> dirs (snd (save m folder_path w)) = dirs w"
  using assms
  by (auto simp: save_def os_mkdir_def path_exists_def os_path_isdir_def Let_def)

theorem save_existing_path_fails_witness:
  "fst (save (two_clusters (1 / 10)) ''out'' world_with_out) = Some FileExistsError
   \<and> files (snd (save (two_clusters (1 / 10)) ''out'' world_with_out)) = files world_with_out
   \<and> dirs (snd (save (two_clusters (1 / 10)) ''out'' world_with_out)) = dirs world_with_out"
proof -
  have "path_exists world_with_out ''out''"
    by (simp add: path_exists_def world_with_out_def)
  from save_existing_path_fails [OF this] show ?thesis .
qed

subsection \<open>Documents with an empty bag of words\<close>

text \<open>
  Claim C8. The claim speaks of every document; a document none of whose tokens is in
  the vocabulary has an empty bag of words, and on it \<open>choose_best_label\<close> returns no
  label: \<open>score\<close> raises ValueError at \<^verbatim>\<open>idx, cnt = zip(*doc)\<close>. Here the vocabulary is
  \<open>a\<close>, \<open>b\<close>, \<open>c\<close>, \<open>d\<close> and the document is the single unseen token \<open>zzz\<close>.
\<close>

theorem choose_best_label_unseen_document_raises:
  "choose_best_label ideal_env (two_clusters (1 / 10)) [''zzz''] = Inl ValueError"
  by (simp add: choose_best_label_def two_clusters_def toy_Dictionary_def toy_doc2bow_def
      score_def score_unnormalized_def zip_star_def)

lemma sample_Inl: "sample env r p = Inl e \<Longrightarrow> e = IndexError"
  by (auto simp: sample_def split: prod.splits list.splits)

lemma array_inplace_Inl: "array_inplace f a z v = Inl e \<Longrightarrow> e = IndexError"
  by (auto simp: array_inplace_def split: if_splits)

lemma init_doc_empty:
  "\<exists>e. init_doc env [] s = Inl e \<and> (e = ValueError \<or> e = IndexError)"
proof -
  obtain m d_z r where s: "s = (m, d_z, r)" by (cases s)
  let ?p = "replicate (nat (K m)) (1 / of_int (K m))"
  show ?thesis
  proof (cases "sample env r ?p")
    case (Inl e)
    with sample_Inl [OF Inl] show ?thesis by (simp add: s init_doc_def)
  next
    case zr: (Inr zr)
    obtain z r' where zr': "zr = (z, r')" by (cases zr)
    show ?thesis
    proof (cases "array_inplace (+) (cluster_doc_count m) z 1")
      case (Inl e)
      with array_inplace_Inl [OF Inl] zr show ?thesis by (simp add: s init_doc_def zr')
    next
      case m_z: (Inr m_z)
      show ?thesis
      proof (cases "array_inplace (+) (cluster_word_count m) z (int (length ([]::doc)))")
        case (Inl e)
        with array_inplace_Inl [OF Inl] zr m_z show ?thesis by (simp add: s init_doc_def zr')
      next
        case (Inr n_z)
        with zr m_z show ?thesis by (simp add: s init_doc_def zr' zip_star_def)
      qed
    qed
  qed
qed

lemma for_each_fails:
  assumes "x \<in> set xs" and "\<And>s. \<exists>e. body x s = Inl e"
  shows "\<exists>e. for_each body xs s = Inl e"
  using assms(1)
proof (induction xs arbitrary: s)
  case Nil
  then show ?case by simp
next
  case (Cons y ys)
  show ?case
  proof (cases "body y s")
    case (Inl e)
    then show ?thesis by simp
  next
    case (Inr s')
    with Cons.prems assms(2) [of s] have "x \<in> set ys" by auto
    from Cons.IH [OF this, of s'] Inr show ?thesis by simp
  qed
qed

lemma ebind_fails: "\<exists>e. x = Inl e \<Longrightarrow> \<exists>e. ebind x f = Inl e"
  by auto

lemma fit_empty_document:
  assumes "[] \<in> set (map (doc2bow (new_Dictionary env docs)) docs)"
  shows "\<exists>e. fit env m docs r = Inl e"
proof -
  have loop: "\<exists>e. for_each (init_doc env) (map (doc2bow (new_Dictionary env docs)) docs) s = Inl e"
    for s
  proof (rule for_each_fails [OF assms])
    fix t show "\<exists>e. init_doc env [] t = Inl e"
      using init_doc_empty [of env t] by blast
  qed
  show ?thesis
  proof (cases "np_zeros (K m) (int (dict_len (new_Dictionary env docs)))")
    case (Inl e)
    then show ?thesis by (simp add: fit_def create_dictionary_def Let_def)
  next
    case (Inr zeros)
    then show ?thesis
      by (simp add: fit_def create_dictionary_def Let_def) (rule ebind_fails, rule loop)
  qed
qed

text \<open>
  Claim C10. A document whose bag of words is empty is not handled. On a model with
  \<open>number_docs\<close> set (fitted or loaded), \<open>score\<close> raises ValueError at
  \<^verbatim>\<open>idx, cnt = zip(*doc)\<close>, and so does \<open>choose_best_label\<close> on a document whose tokens
  are all dropped by \<open>doc2bow\<close>. The initialisation loop of \<open>fit\<close> has the same unpacking:
  on an empty document its body raises in every state, ValueError at the unpacking
  unless the draw or the counters raised IndexError before, so \<open>fit\<close> on a corpus with
  such a document raises and returns no assignment.
\<close>

theorem empty_document_raises:
  "(number_docs m \<noteq> None \<longrightarrow> score env m [] = Inl ValueError)
   \<and> (dictionary m = Some d \<and> doc2bow d doc = [] \<and> number_docs m \<noteq> None
        \<longrightarrow> choose_best_label env m doc = Inl ValueError)
   \<and> (\<exists>e. init_doc env [] s = Inl e \<and> (e = ValueError \<or> e = IndexError))
   \<and> (sample env r (replicate (nat (K m)) (1 / of_int (K m))) = Inr (z, r')
        \<and> z < length (cluster_doc_count m) \<and> z < length (cluster_word_count m)
        \<longrightarrow> init_doc env [] (m, d_z, r) = Inl ValueError)
   \<and> ([] \<in> set (map (doc2bow (new_Dictionary env docs)) docs)
        \<longrightarrow> (\<exists>e. fit env m docs r = Inl e))"
proof -
  have sc: "score env m [] = Inl ValueError" if "number_docs m \<noteq> None"
    using that by (auto simp: score_def score_unnormalized_def zip_star_def Let_def)
  have "choose_best_label env m doc = Inl ValueError"
    if "dictionary m = Some d" "doc2bow d doc = []" "number_docs m \<noteq> None"
    using that sc by (simp add: choose_best_label_def)
  moreover have "init_doc env [] (m, d_z, r) = Inl ValueError"
    if "sample env r (replicate (nat (K m)) (1 / of_int (K m))) = Inr (z, r')"
      "z < length (cluster_doc_count m)" "z < length (cluster_word_count m)"
    using that by (simp add: init_doc_def array_inplace_def zip_star_def)
  ultimately show ?thesis
    using sc init_doc_empty [of env s] fit_empty_document [of env docs m r] by blast
qed

theorem empty_document_raises_witness:
  "score ideal_env (two_clusters (1 / 10)) [] = Inl ValueError
   \<and> choose_best_label ideal_env (two_clusters (1 / 10)) [''y'', ''z''] = Inl ValueError
   \<and> init_doc ideal_env [] (two_clusters (1 / 10), [], ()) = Inl ValueError
   \<and> (\<exists>e. fit ideal_env (two_clusters (1 / 10)) [[''a''], []] () = Inl e)"
proof -
  let ?m = "two_clusters (1 / 10)"
  let ?d = "toy_Dictionary [[''a'', ''b''], [''c'', ''c''], [''d'', ''d'']]"
  have h1: "number_docs ?m \<noteq> None" and h2: "dictionary ?m = Some ?d"
    and h3: "0 < length (cluster_doc_count ?m)" and h4: "0 < length (cluster_word_count ?m)"
    by (simp_all add: two_clusters_def)
  have h5: "doc2bow ?d [''y'', ''z''] = []"
    by (simp add: toy_Dictionary_def toy_doc2bow_def)
  have h6: "sample ideal_env () (replicate (nat (K ?m)) (1 / of_int (K ?m))) = Inr (0, ())"
    by (simp add: two_clusters_def sample_def ideal_env_def first_category_def numeral_2_eq_2)
  have h7: "[] \<in> set (map (doc2bow (new_Dictionary ideal_env [[''a''], []])) [[''a''], []])"
    by (simp add: ideal_env_def toy_Dictionary_def toy_doc2bow_def)
  from empty_document_raises [where m = ?m and env = ideal_env and d = ?d
      and doc = "[''y'', ''z'']" and s = "(?m, [], ())" and r = "()" and z = 0 and r' = "()"
      and d_z = "[]" and docs = "[[''a''], []]"] h1 h2 h3 h4 h5 h6 h7
  show ?thesis by blast
qed

subsection \<open>The loops of fit\<close>

lemma array_inplace_Inr:
  "array_inplace f a z v = Inr a' \<longleftrightarrow> z < length a \<and> a' = a[z := f (a ! z) v]"
  by (auto simp: array_inplace_def)

lemma ebindE:
  assumes "ebind x f = Inr y"
  obtains a where "x = Inr a" "f a = Inr y"
  using assms by (auto simp: ebind_eq_Inr)


lemma for_each_invariant:
  assumes "for_each body xs s = Inr s'" and "P s"
    and "\<And>x s s'. x \<in> set xs \<Longrightarrow> P s \<Longrightarrow> body x s = Inr s' \<Longrightarrow> P s'"
  shows "P s'"
  using assms
proof (induction xs arbitrary: s)
  case Nil
  then show ?case by simp
next
  case (Cons x xs)
  from Cons.prems(1) obtain s1 where s1: "body x s = Inr s1" "for_each body xs s1 = Inr s'"
    by (auto split: sum.splits)
  have "P s1" by (rule Cons.prems(3) [of x s]) (simp_all add: Cons.prems(2) s1)
  show ?case
  proof (rule Cons.IH [OF s1(2) \<open>P s1\<close>])
    fix y t t'
    assume "y \<in> set xs" "P t" "body y t = Inr t'"
    then show "P t'" using Cons.prems(3) [of y t t'] by simp
  qed
qed

lemma move_doc_Inr:
  assumes "move_doc env (i, doc) (m, d_z, r, t) = Inr (m', d_z', r', t')"
  shows "\<exists>z_new. i < length d_z \<and> d_z ! i < length (cluster_doc_count m)
           \<and> z_new < length (cluster_doc_count m)
           \<and> d_z' = d_z[i := z_new]
           \<and> t' = (if z_new \<noteq> d_z ! i then t + 1 else t)
           \<and> cluster_doc_count m' =
               ((cluster_doc_count m)[d_z ! i := cluster_doc_count m ! (d_z ! i) - 1])
                 [z_new := ((cluster_doc_count m)[d_z ! i := cluster_doc_count m ! (d_z ! i) - 1]) ! z_new + 1]
           \<and> K m' = K m"
proof -
  from assms have i: "i < length d_z"
    by (simp add: move_doc_def split: if_splits)
  with assms show ?thesis
    apply (simp add: move_doc_def Let_def case_prod_unfold)
    apply (elim ebindE)
    subgoal for m_z n_z ic n_z_w p zr m_z2 n_z2 n_z_w2
      apply (clarsimp simp: array_inplace_Inr)
      apply (rule exI [of _ "fst zr"])
      apply simp
      done
    done
qed


lemma init_doc_Inr:
  assumes "init_doc env doc (m, d_z, r) = Inr (m', d_z', r')"
  shows "\<exists>z. d_z' = d_z @ [z] \<and> z < length (cluster_doc_count m)
           \<and> cluster_doc_count m' = (cluster_doc_count m)[z := cluster_doc_count m ! z + 1]
           \<and> K m' = K m"
  using assms
  apply (simp add: init_doc_def ebind_eq_Inr array_inplace_Inr split: prod.splits)
  apply (elim exE conjE)
  apply auto
  done



lemma move_doc_transfers:
  assumes "move_doc env (i, doc) (m, d_z, r, t) = Inr (m', d_z', r', t')"
  shows "t \<le> t'" and "t' = t \<Longrightarrow> cluster_doc_count m' = cluster_doc_count m \<and> d_z' = d_z"
    and "length (cluster_doc_count m') = length (cluster_doc_count m)"
    and "length (cluster_doc_count m) = 1 \<Longrightarrow> t' = t"
  using move_doc_Inr [OF assms] by (auto split: if_splits)


lemma pass_transfers:
  assumes "for_each (move_doc env) xs (m, d_z, r, 0) = Inr (m', d_z', r', t')"
  shows "t' = 0 \<Longrightarrow> cluster_doc_count m' = cluster_doc_count m"
    and "length (cluster_doc_count m') = length (cluster_doc_count m)"
    and "length (cluster_doc_count m) = 1 \<Longrightarrow> t' = 0"
proof -
  have "(\<lambda>(m1, d1, r1, t1).
          (t1 = 0 \<longrightarrow> cluster_doc_count m1 = cluster_doc_count m)
          \<and> length (cluster_doc_count m1) = length (cluster_doc_count m)
          \<and> (length (cluster_doc_count m) = 1 \<longrightarrow> t1 = 0)) (m', d_z', r', t')"
  proof (rule for_each_invariant [OF assms])
    show "case (m, d_z, r, 0::nat) of (m1, d1, r1, t1) \<Rightarrow>
            (t1 = 0 \<longrightarrow> cluster_doc_count m1 = cluster_doc_count m)
            \<and> length (cluster_doc_count m1) = length (cluster_doc_count m)
            \<and> (length (cluster_doc_count m) = 1 \<longrightarrow> t1 = 0)"
      by simp
  next
    fix x s s'
    assume a: "case s of (m1, d1, r1, t1) \<Rightarrow>
            (t1 = 0 \<longrightarrow> cluster_doc_count m1 = cluster_doc_count m)
            \<and> length (cluster_doc_count m1) = length (cluster_doc_count m)
            \<and> (length (cluster_doc_count m) = 1 \<longrightarrow> t1 = 0)"
      and b: "move_doc env x s = Inr s'"
    obtain i doc where x: "x = (i, doc)" by (cases x)
    obtain m1 d1 r1 t1 where s: "s = (m1, d1, r1, t1)" by (cases s)
    obtain m2 d2 r2 t2 where s': "s' = (m2, d2, r2, t2)" by (cases s')
    from b have mv: "move_doc env (i, doc) (m1, d1, r1, t1) = Inr (m2, d2, r2, t2)"
      by (simp add: x s s')
    show "case s' of (m1, d1, r1, t1) \<Rightarrow>
            (t1 = 0 \<longrightarrow> cluster_doc_count m1 = cluster_doc_count m)
            \<and> length (cluster_doc_count m1) = length (cluster_doc_count m)
            \<and> (length (cluster_doc_count m) = 1 \<longrightarrow> t1 = 0)"
      using a move_doc_transfers [OF mv] by (auto simp: s s')
  qed
  then show "t' = 0 \<Longrightarrow> cluster_doc_count m' = cluster_doc_count m"
    and "length (cluster_doc_count m') = length (cluster_doc_count m)"
    and "length (cluster_doc_count m) = 1 \<Longrightarrow> t' = 0"
    by simp_all
qed



lemma fit_iters_pass:
  assumes "fit_iters env corpus (iter # iters) (m, d_z, r, cc, out) = Inr res"
  obtains m1 d1 r1 t where
    "for_each (move_doc env) (enumerate 0 corpus) (m, d_z, r, 0) = Inr (m1, d1, r1, t)"
proof (cases "for_each (move_doc env) (enumerate 0 corpus) (m, d_z, r, 0)")
  case (Inl e)
  with assms show ?thesis by simp
next
  case (Inr s)
  obtain m1 d1 r1 t where "s = (m1, d1, r1, t)" by (cases s)
  with Inr that show ?thesis by simp
qed

lemma fit_iters_step:
  assumes "for_each (move_doc env) (enumerate 0 corpus) (m, d_z, r, 0) = Inr (m1, d1, r1, t)"
  shows "fit_iters env corpus (iter # iters) (m, d_z, r, cc, out) =
     (if t = 0 \<and> int (populated (cluster_doc_count m1)) = cc \<and> 25 < iter
      then Inr (m1, d1, r1, cc, out @ [Stage iter t (populated (cluster_doc_count m1)), Converged])
      else fit_iters env corpus iters (m1, d1, r1, int (populated (cluster_doc_count m1)),
             out @ [Stage iter t (populated (cluster_doc_count m1))]))"
  using assms by (simp add: Let_def)


subsection \<open>What fit prints\<close>

lemma fit_Inr:
  assumes "fit env m docs r = Inr (d_z, m', out, r')"
  shows "\<exists>m0 m1 d1 r1 cc'.
     0 \<le> K m \<and> cluster_doc_count m0 = cluster_doc_count m \<and> K m0 = K m
     \<and> cluster_word_count m0 = cluster_word_count m
     \<and> for_each (init_doc env) (map (doc2bow (new_Dictionary env docs)) docs) (m0, [], r)
         = Inr (m1, d1, r1)
     \<and> fit_iters env (map (doc2bow (new_Dictionary env docs)) docs) [0 ..< nat (n_iters m)]
          (m1, d1, r1, K m, []) = Inr (m', d_z, r', cc', out)"
proof -
  let ?d = "new_Dictionary env docs"
  let ?corpus = "map (doc2bow ?d) docs"
  let ?m0 = "m\<lparr>dictionary := Some ?d, vocab_size := Some (int (dict_len ?d)),
               number_docs := Some (int (length docs)),
               cluster_word_distribution := replicate (nat (K m)) (replicate (dict_len ?d) 0)\<rparr>"
  have k: "0 \<le> K m"
  proof (rule ccontr)
    assume "\<not> 0 \<le> K m"
    then have "fit env m docs r = Inl ValueError"
      by (simp add: fit_def create_dictionary_def Let_def np_zeros_def)
    with assms show False by simp
  qed
  then have "fit env m docs r =
      ebind (for_each (init_doc env) ?corpus (?m0, [], r)) (\<lambda>s.
        ebind (fit_iters env ?corpus [0 ..< nat (n_iters m)]
                 (fst s, fst (snd s), snd (snd s), K m, []))
          (\<lambda>t. Inr (fst (snd t), fst t, snd (snd (snd (snd t))), fst (snd (snd t)))))"
    by (simp add: fit_def create_dictionary_def Let_def np_zeros_def case_prod_unfold)
  with assms obtain s t where
    s: "for_each (init_doc env) ?corpus (?m0, [], r) = Inr s"
    and t: "fit_iters env ?corpus [0 ..< nat (n_iters m)]
              (fst s, fst (snd s), snd (snd s), K m, []) = Inr t"
    and res: "(fst (snd t), fst t, snd (snd (snd (snd t))), fst (snd (snd t)))
              = (d_z, m', out, r')"
    by (auto elim!: ebindE)
  obtain m1 d1 r1 where s': "s = (m1, d1, r1)" by (cases s)
  obtain m2 d2 r2 cc2 out2 where t': "t = (m2, d2, r2, cc2, out2)" by (cases t)
  have "cluster_doc_count ?m0 = cluster_doc_count m" "K ?m0 = K m"
    "cluster_word_count ?m0 = cluster_word_count m"
    by simp_all
  with k s t res show ?thesis
    unfolding s' t' by (intro exI [of _ ?m0] exI [of _ m1] exI [of _ d1] exI [of _ r1]
        exI [of _ cc2]) simp
qed

lemma log_of_Cons:
  "log_of a (p # ps) conv = Stage a (fst p) (snd p) # log_of (Suc a) ps conv"
  by (cases p) (simp add: log_of_def)

lemma stops_at_Suc:
  "stops_at cc a (p # ps) (Suc k) = stops_at (int (snd p)) (Suc a) ps k"
  by (cases k) (simp_all add: stops_at_def)

lemma stops_at_0:
  "stops_at cc a (p # ps) 0 \<longleftrightarrow> fst p = 0 \<and> int (snd p) = cc \<and> 25 < a"
  by (simp add: stops_at_def)

lemma fit_iters_log:
  assumes "fit_iters env corpus [a ..< b] (m, d_z, r, cc, out) = Inr (m', d_z', r', cc', out')"
    and "a = 0 \<or> cc = int (populated (cluster_doc_count m))"
  shows "\<exists>ps conv. out' = out @ log_of a ps conv \<and> length ps \<le> b - a
      \<and> (conv \<longrightarrow> ps \<noteq> [])
      \<and> (\<forall>j<length ps. stops_at cc a ps j \<longleftrightarrow> conv \<and> Suc j = length ps)
      \<and> (\<not> conv \<longrightarrow> length ps = b - a)
      \<and> (\<forall>j<length ps. fst (ps ! j) = 0 \<and> 25 < a + j \<longrightarrow> Suc j = length ps)
      \<and> (length (cluster_doc_count m) = 1 \<longrightarrow> (\<forall>j<length ps. fst (ps ! j) = 0))"
  using assms
proof (induction "b - a" arbitrary: a m d_z r cc out)
  case 0
  then have "[a ..< b] = []" by simp
  with "0.prems"(1) have "out' = out" by simp
  then show ?case
    by (intro exI [of _ "[]"] exI [of _ False]) (use 0 in \<open>simp add: log_of_def\<close>)
next
  case (Suc n)
  then have ab: "a < b" and upt: "[a ..< b] = a # [Suc a ..< b]"
    by (auto simp: upt_conv_Cons)
  from Suc.prems(1) [unfolded upt] obtain m1 d1 r1 t where
    pass: "for_each (move_doc env) (enumerate 0 corpus) (m, d_z, r, 0) = Inr (m1, d1, r1, t)"
    by (rule fit_iters_pass)
  define c where "c = populated (cluster_doc_count m1)"
  note step = Suc.prems(1) [unfolded upt fit_iters_step [OF pass], folded c_def]
  have one: "length (cluster_doc_count m) = 1 \<longrightarrow> t = 0"
    using pass_transfers(3) [OF pass] by simp
  show ?case
  proof (cases "t = 0 \<and> int c = cc \<and> 25 < a")
    case True
    with step have "out' = out @ [Stage a t c, Converged]"
      by simp
    then show ?thesis
      using True ab one
      by (intro exI [of _ "[(t, c)]"] exI [of _ True]) (simp add: log_of_def stops_at_def)
  next
    case False
    with step have rec:
      "fit_iters env corpus [Suc a ..< b] (m1, d1, r1, int c, out @ [Stage a t c])
         = Inr (m', d_z', r', cc', out')"
      by simp
    have n: "n = b - Suc a" using Suc.hyps(2) by simp
    have inv: "Suc a = 0 \<or> int c = int (populated (cluster_doc_count m1))"
      by (simp add: c_def)
    from Suc.hyps(1) [OF n rec inv] obtain ps conv where
      IH: "out' = (out @ [Stage a t c]) @ log_of (Suc a) ps conv"
        "length ps \<le> b - Suc a" "conv \<longrightarrow> ps \<noteq> []"
        "\<forall>j<length ps. stops_at (int c) (Suc a) ps j \<longleftrightarrow> conv \<and> Suc j = length ps"
        "\<not> conv \<longrightarrow> length ps = b - Suc a"
        "\<forall>j<length ps. fst (ps ! j) = 0 \<and> 25 < Suc a + j \<longrightarrow> Suc j = length ps"
        "length (cluster_doc_count m1) = 1 \<longrightarrow> (\<forall>j<length ps. fst (ps ! j) = 0)"
      by blast
    have notstop: "\<not> (t = 0 \<and> 25 < a)"
    proof
      assume z: "t = 0 \<and> 25 < a"
      then have "cc = int (populated (cluster_doc_count m))" using Suc.prems(2) by simp
      moreover have "cluster_doc_count m1 = cluster_doc_count m"
        using pass_transfers(1) [OF pass] z by simp
      ultimately show False using False z by (simp add: c_def)
    qed
    have len: "length (cluster_doc_count m1) = length (cluster_doc_count m)"
      by (rule pass_transfers(2) [OF pass])
    have 1: "out' = out @ log_of a ((t, c) # ps) conv"
      using IH(1) by (simp add: log_of_Cons)
    have 2: "length ((t, c) # ps) \<le> b - a" using IH(2) ab by simp
    have 3: "\<forall>j<length ((t, c) # ps).
               stops_at cc a ((t, c) # ps) j \<longleftrightarrow> conv \<and> Suc j = length ((t, c) # ps)"
    proof (intro allI impI)
      fix j assume j: "j < length ((t, c) # ps)"
      show "stops_at cc a ((t, c) # ps) j \<longleftrightarrow> conv \<and> Suc j = length ((t, c) # ps)"
      proof (cases j)
        case 0
        then show ?thesis using False IH(3) by (auto simp: stops_at_0)
      next
        case (Suc k)
        then show ?thesis using j IH(4) by (simp add: stops_at_Suc)
      qed
    qed
    have 4: "\<not> conv \<longrightarrow> length ((t, c) # ps) = b - a" using IH(5) ab by auto
    have 5: "\<forall>j<length ((t, c) # ps).
               fst (((t, c) # ps) ! j) = 0 \<and> 25 < a + j \<longrightarrow> Suc j = length ((t, c) # ps)"
    proof (intro allI impI)
      fix j assume j: "j < length ((t, c) # ps)"
        and z: "fst (((t, c) # ps) ! j) = 0 \<and> 25 < a + j"
      show "Suc j = length ((t, c) # ps)"
      proof (cases j)
        case 0
        then show ?thesis using z notstop by simp
      next
        case (Suc k)
        then show ?thesis using j z IH(6) by simp
      qed
    qed
    have 6: "length (cluster_doc_count m) = 1 \<longrightarrow>
               (\<forall>j<length ((t, c) # ps). fst (((t, c) # ps) ! j) = 0)"
      using one IH(7) len by (auto simp: nth_Cons split: nat.splits)
    have 0: "conv \<longrightarrow> (t, c) # ps \<noteq> []" by simp
    show ?thesis
      by (rule exI [of _ "(t, c) # ps"], rule exI [of _ conv]) (intro conjI 1 2 0 3 4 5 6)
  qed
qed

subsection \<open>Runs of fit that return\<close>

lemma init_loop_length:
  assumes "for_each (init_doc env) corpus (m, d_z, r) = Inr (m', d_z', r')"
  shows "length (cluster_doc_count m') = length (cluster_doc_count m) \<and> K m' = K m"
proof -
  have "(\<lambda>(m1, d1, r1). length (cluster_doc_count m1) = length (cluster_doc_count m)
           \<and> K m1 = K m) (m', d_z', r')"
    by (rule for_each_invariant [OF assms]) (auto dest!: init_doc_Inr)
  then show ?thesis by simp
qed

text \<open>
  Claim C3. A run of \<open>fit\<close> that returns has printed one line per pass, for the passes
  \<open>0, 1, \<dots>\<close> in order, and \<open>Converged\<close> after them when it broke out of the loop. It made
  at most \<open>n_iters\<close> passes; a pass is the last one with the break exactly when its
  transfers are 0, its number of populated clusters is the \<open>cluster_count\<close> of the pass
  before (K at pass 0) and its index is above 25; without a break all \<open>n_iters\<close> passes
  were made. When no pass transfers a document, there are at most 27 passes (the last
  index is at most 26), which is the case whenever there is one cluster.
\<close>

theorem fit_passes_and_early_stop:
  assumes "fit env m docs r = Inr (d_z, m', out, r')"
  shows "\<exists>ps conv. out = log_of 0 ps conv
      \<and> length ps \<le> nat (n_iters m)
      \<and> (\<forall>j<length ps. stops_at (K m) 0 ps j \<longleftrightarrow> conv \<and> Suc j = length ps)
      \<and> (\<not> conv \<longrightarrow> length ps = nat (n_iters m))
      \<and> ((\<forall>j<length ps. fst (ps ! j) = 0) \<longrightarrow> length ps \<le> 27)
      \<and> (length (cluster_doc_count m) = 1 \<longrightarrow> (\<forall>j<length ps. fst (ps ! j) = 0))"
proof -
  from fit_Inr [OF assms] obtain m0 m1 d1 r1 cc' where
    init: "for_each (init_doc env) (map (doc2bow (new_Dictionary env docs)) docs) (m0, [], r)
             = Inr (m1, d1, r1)"
    and m0: "cluster_doc_count m0 = cluster_doc_count m"
    and iters: "fit_iters env (map (doc2bow (new_Dictionary env docs)) docs)
        [0 ..< nat (n_iters m)] (m1, d1, r1, K m, []) = Inr (m', d_z, r', cc', out)"
    by blast
  from fit_iters_log [OF iters disjI1 [OF refl]] obtain ps conv where
    ps: "out = log_of 0 ps conv" "length ps \<le> nat (n_iters m)"
      "\<forall>j<length ps. stops_at (K m) 0 ps j \<longleftrightarrow> conv \<and> Suc j = length ps"
      "\<not> conv \<longrightarrow> length ps = nat (n_iters m)"
      "\<forall>j<length ps. fst (ps ! j) = 0 \<and> 25 < 0 + j \<longrightarrow> Suc j = length ps"
      "length (cluster_doc_count m1) = 1 \<longrightarrow> (\<forall>j<length ps. fst (ps ! j) = 0)"
    by auto
  have "length ps \<le> 27" if z: "\<forall>j<length ps. fst (ps ! j) = 0"
  proof (rule ccontr)
    assume "\<not> length ps \<le> 27"
    then have "26 < length ps" by simp
    with z ps(5) [rule_format, of 26] have "Suc 26 = length ps" by simp
    with \<open>\<not> length ps \<le> 27\<close> show False by simp
  qed
  moreover have "length (cluster_doc_count m1) = length (cluster_doc_count m)"
    using init_loop_length [OF init] m0 by simp
  ultimately show ?thesis
    using ps by (intro exI [of _ ps] exI [of _ conv]) simp
qed


subsection \<open>The assignment of documents\<close>


lemmas run_defs = move_doc_def init_doc_def array_inplace_def zip_star_def matrix_inplace_def
  row_inplace_def score_def score_unnormalized_def score_lN2_def score_lD2_def
  take_columns_def np_broadcast_def normalize_def sample_def first_category_def
  ideal_env_def toy_Dictionary_def toy_doc2bow_def populated_def Let_def

lemma fit_run:
  assumes "0 \<le> K m"
    and "for_each (init_doc env) (map (doc2bow (new_Dictionary env docs)) docs)
          (m\<lparr>dictionary := Some (new_Dictionary env docs),
             vocab_size := Some (int (dict_len (new_Dictionary env docs))),
             number_docs := Some (int (length docs)),
             cluster_word_distribution :=
               replicate (nat (K m)) (replicate (dict_len (new_Dictionary env docs)) 0)\<rparr>, [], r)
         = Inr (m1, d1, r1)"
    and "fit_iters env (map (doc2bow (new_Dictionary env docs)) docs) [0 ..< nat (n_iters m)]
          (m1, d1, r1, K m, []) = Inr (m', d_z, r', cc', out)"
  shows "fit env m docs r = Inr (d_z, m', out, r')"
  using assms by (simp add: fit_def create_dictionary_def Let_def np_zeros_def)

lemma fit_iters_fixpoint:
  assumes pass: "for_each (move_doc env) (enumerate 0 corpus) (m, d_z, r, 0) = Inr (m, d_z, r, 0)"
    and cc: "cc = int (populated (cluster_doc_count m))"
    and b: "26 < b"
  shows "a \<le> 26 \<Longrightarrow> fit_iters env corpus [a ..< b] (m, d_z, r, cc, out)
       = Inr (m, d_z, r, cc,
              out @ map (\<lambda>j. Stage j 0 (populated (cluster_doc_count m))) [a ..< 27] @ [Converged])"
proof (induction "26 - a" arbitrary: a out)
  case 0
  then have a: "a = 26" by simp
  have u1: "[26 ..< b] = 26 # [27 ..< b]" using b by (simp add: upt_conv_Cons)
  have u2: "[26 ..< 27] = [26::nat]" by simp
  show ?case
    unfolding a u1 u2 fit_iters_step [OF pass] using cc by simp
next
  case (Suc n)
  then have a: "a < 26" by simp
  have u1: "[a ..< b] = a # [Suc a ..< b]" using a b by (simp add: upt_conv_Cons)
  have u2: "[a ..< 27] = a # [Suc a ..< 27]" using a by (simp add: upt_conv_Cons)
  have n: "n = 26 - Suc a" using Suc.hyps(2) by simp
  have sa: "Suc a \<le> 26" using a by simp
  note IH = Suc.hyps(1) [OF n sa, of "out @ [Stage a 0 (populated (cluster_doc_count m))]"]
  show ?case
    unfolding u1 u2 fit_iters_step [OF pass] using a cc IH by simp
qed

lemma run_a_init:
  "for_each (init_doc ideal_env) (map (doc2bow (new_Dictionary ideal_env [[''a'']])) [[''a'']])
     ((unfitted n)\<lparr>dictionary := Some (new_Dictionary ideal_env [[''a'']]),
        vocab_size := Some (int (dict_len (new_Dictionary ideal_env [[''a'']]))),
        number_docs := Some (int (length [[''a'']])),
        cluster_word_distribution :=
          replicate (nat (K (unfitted n)))
            (replicate (dict_len (new_Dictionary ideal_env [[''a'']])) 0)\<rparr>, [], ())
   = Inr (fitted [[''a'']] [1] [1] [[1]] n, [0], ())"
  by (simp add: unfitted_def fitted_def run_defs)

lemma run_a_pass:
  "for_each (move_doc ideal_env)
     (enumerate 0 (map (doc2bow (new_Dictionary ideal_env [[''a'']])) [[''a'']]))
     (fitted [[''a'']] [1] [1] [[1]] n, [0], (), 0)
   = Inr (fitted [[''a'']] [1] [1] [[1]] n, [0], (), 0)"
  by (simp add: fitted_def run_defs)


subsection \<open>Concrete runs of fit\<close>






lemma run_aa_init:
  "for_each (init_doc ideal_env)
     (map (doc2bow (new_Dictionary ideal_env [[''a'', ''a'']])) [[''a'', ''a'']])
     ((unfitted 1)\<lparr>dictionary := Some (new_Dictionary ideal_env [[''a'', ''a'']]),
        vocab_size := Some (int (dict_len (new_Dictionary ideal_env [[''a'', ''a'']]))),
        number_docs := Some (int (length [[''a'', ''a'']])),
        cluster_word_distribution :=
          replicate (nat (K (unfitted 1)))
            (replicate (dict_len (new_Dictionary ideal_env [[''a'', ''a'']])) 0)\<rparr>, [], ())
   = Inr (fitted [[''a'', ''a'']] [1] [1] [[2]] 1, [0], ())"
  by (simp add: unfitted_def fitted_def run_defs)

lemma run_aa_pass:
  "for_each (move_doc ideal_env)
     (enumerate 0 (map (doc2bow (new_Dictionary ideal_env [[''a'', ''a'']])) [[''a'', ''a'']]))
     (fitted [[''a'', ''a'']] [1] [1] [[2]] 1, [0], (), 0)
   = Inr (fitted [[''a'', ''a'']] [1] [1] [[2]] 1, [0], (), 0)"
  by (simp add: fitted_def run_defs)

lemma run_aa:
  "fit ideal_env (unfitted 1) [[''a'', ''a'']] ()
     = Inr ([0], fitted [[''a'', ''a'']] [1] [1] [[2]] 1, [Stage 0 0 1], ())"
proof (rule fit_run [OF _ run_aa_init])
  show "0 \<le> K (unfitted 1)" by (simp add: unfitted_def)
  have k: "K (unfitted 1) = 1" "[0 ..< nat (n_iters (unfitted 1))] = [0]"
    by (simp_all add: unfitted_def)
  have c: "populated (cluster_doc_count (fitted [[''a'', ''a'']] [1] [1] [[2]] 1)) = 1"
    by (simp add: fitted_def populated_def)
  show "fit_iters ideal_env
      (map (doc2bow (new_Dictionary ideal_env [[''a'', ''a'']])) [[''a'', ''a'']])
      [0 ..< nat (n_iters (unfitted 1))]
      (fitted [[''a'', ''a'']] [1] [1] [[2]] 1, [0], (), K (unfitted 1), [])
     = Inr (fitted [[''a'', ''a'']] [1] [1] [[2]] 1, [0], (), 1, [Stage 0 0 1])"
    unfolding k fit_iters_step [OF run_aa_pass] c by simp
qed

text \<open>
  Claim C2 fails on \<open>fit\<close> of \<^verbatim>\<open>mgp_array.py\<close>. The corpus is the one document \<open>a a\<close>, whose
  bag of words is \<open>[(0, 2)]\<close>: one pair, two occurrences. With one cluster and one pass,
  \<open>fit\<close> ends with \<open>cluster_word_count = [1]\<close>, from \<^verbatim>\<open>n_z[z] += len(doc)\<close>, the number of
  pairs, and with \<open>cluster_word_distribution = [[2]]\<close>, from \<^verbatim>\<open>n_z_w[z, idx] += cnt\<close>: the
  row adds up to 2, the occurrences in the corpus, and the word count is 1.
\<close>

theorem fit_word_count_counts_pairs:
  "init 1 (1 / 10) (1 / 10) 1 = Inr (unfitted 1)
   \<and> doc2bow (new_Dictionary ideal_env [[''a'', ''a'']]) [''a'', ''a''] = [(0, 2)]
   \<and> fit ideal_env (unfitted 1) [[''a'', ''a'']] ()
       = Inr ([0], fitted [[''a'', ''a'']] [1] [1] [[2]] 1, [Stage 0 0 1], ())
   \<and> cluster_word_count (fitted [[''a'', ''a'']] [1] [1] [[2]] 1) = [1]
   \<and> map sum_list (cluster_word_distribution (fitted [[''a'', ''a'']] [1] [1] [[2]] 1)) = [2]"
  using run_aa
  by (simp add: init_def unfitted_def fitted_def ideal_env_def toy_Dictionary_def
      toy_doc2bow_def)

lemma run_30:
  "fit ideal_env (unfitted 30) [[''a'']] ()
     = Inr ([0], fitted [[''a'']] [1] [1] [[1]] 30,
            map (\<lambda>j. Stage j 0 1) [0 ..< 27] @ [Converged], ())"
proof (rule fit_run [OF _ run_a_init])
  show "0 \<le> K (unfitted 30)" by (simp add: unfitted_def)
  have k: "K (unfitted 30) = 1" "nat (n_iters (unfitted 30)) = 30"
    by (simp_all add: unfitted_def)
  have c: "populated (cluster_doc_count (fitted [[''a'']] [1] [1] [[1]] 30)) = 1"
    by (simp add: fitted_def populated_def)
  have "fit_iters ideal_env (map (doc2bow (new_Dictionary ideal_env [[''a'']])) [[''a'']])
      [0 ..< 30]
      (fitted [[''a'']] [1] [1] [[1]] 30, [0], (),
       int (populated (cluster_doc_count (fitted [[''a'']] [1] [1] [[1]] 30))), [])
     = Inr (fitted [[''a'']] [1] [1] [[1]] 30, [0], (),
            int (populated (cluster_doc_count (fitted [[''a'']] [1] [1] [[1]] 30))),
            [] @ map (\<lambda>j. Stage j 0 (populated (cluster_doc_count (fitted [[''a'']] [1] [1] [[1]] 30))))
                   [0 ..< 27] @ [Converged])"
    by (rule fit_iters_fixpoint [OF run_a_pass refl]) simp_all
  then show "fit_iters ideal_env (map (doc2bow (new_Dictionary ideal_env [[''a'']])) [[''a'']])
      [0 ..< nat (n_iters (unfitted 30))]
      (fitted [[''a'']] [1] [1] [[1]] 30, [0], (), K (unfitted 30), [])
     = Inr (fitted [[''a'']] [1] [1] [[1]] 30, [0], (), 1,
            map (\<lambda>j. Stage j 0 1) [0 ..< 27] @ [Converged])"
    unfolding k c by (simp only: of_nat_1 append_Nil)
qed

theorem fit_passes_and_early_stop_witness:
  "fit ideal_env (unfitted 30) [[''a'']] ()
     = Inr ([0], fitted [[''a'']] [1] [1] [[1]] 30,
            map (\<lambda>j. Stage j 0 1) [0 ..< 27] @ [Converged], ())
   \<and> (\<exists>ps conv. map (\<lambda>j. Stage j 0 1) [0 ..< 27] @ [Converged] = log_of 0 ps conv
         \<and> length ps \<le> 27 \<and> length ps \<le> nat (n_iters (unfitted 30)))"
proof -
  from fit_passes_and_early_stop [OF run_30] obtain ps conv where
    ps: "map (\<lambda>j. Stage j 0 1) [0 ..< 27] @ [Converged] = log_of 0 ps conv"
      "length ps \<le> nat (n_iters (unfitted 30))"
      "(\<forall>j<length ps. fst (ps ! j) = 0) \<longrightarrow> length ps \<le> 27"
      "length (cluster_doc_count (unfitted 30)) = 1 \<longrightarrow> (\<forall>j<length ps. fst (ps ! j) = 0)"
    by blast
  have "length (cluster_doc_count (unfitted 30)) = 1" by (simp add: unfitted_def)
  with ps(3,4) have "length ps \<le> 27" by blast
  with ps(1,2) run_30 show ?thesis by blast
qed

end
